theory Spec2Isabelle
  imports Complex_Main "HOL-Library.Char_ord" "HOL-Library.List_Lexorder"
begin

section \<open>Python strings\<close>

text \<open>
  A Python \<open>str\<close> is modelled as a \<open>string\<close> of ASCII characters. \<open>isspace\<close> is
  \<open>str.isspace\<close> on one character, \<open>strip\<close> is \<open>str.strip()\<close>, \<open>lower\<close> is
  \<open>str.lower()\<close>, \<open>split_on\<close> is \<open>str.split(sep)\<close> for a one-character separator,
  \<open>split_ws\<close> is \<open>str.split()\<close>, \<open>join\<close> is \<open>sep.join(parts)\<close>.
\<close>

definition isspace :: "char \<Rightarrow> bool" where
  "isspace c = (let n = (of_char c :: nat) in (9 \<le> n \<and> n \<le> 13) \<or> (28 \<le> n \<and> n \<le> 32))"

definition strip :: "string \<Rightarrow> string" where
  "strip s = rev (dropWhile isspace (rev (dropWhile isspace s)))"

definition lower_char :: "char \<Rightarrow> char" where
  "lower_char c = (let n = (of_char c :: nat) in if 65 \<le> n \<and> n \<le> 90 then char_of (n + 32) else c)"

definition lower :: "string \<Rightarrow> string" where
  "lower s = map lower_char s"

fun split_on :: "char \<Rightarrow> string \<Rightarrow> string list" where
  "split_on c [] = [[]]"
| "split_on c (x # xs) =
     (if x = c then [] # split_on c xs
      else (case split_on c xs of [] \<Rightarrow> [[x]] | p # ps \<Rightarrow> (x # p) # ps))"

fun split_ws_from :: "string \<Rightarrow> string \<Rightarrow> string list" where
  "split_ws_from cur [] = (if cur = [] then [] else [rev cur])"
| "split_ws_from cur (x # xs) =
     (if isspace x then (if cur = [] then split_ws_from [] xs else rev cur # split_ws_from [] xs)
      else split_ws_from (x # cur) xs)"

definition split_ws :: "string \<Rightarrow> string list" where
  "split_ws s = split_ws_from [] s"

fun join :: "string \<Rightarrow> string list \<Rightarrow> string" where
  "join sep [] = []"
| "join sep [p] = p"
| "join sep (p # q # ps) = p @ sep @ join sep (q # ps)"

definition replace_quote :: "string \<Rightarrow> string" where
  \<comment> \<open>\<open>value.replace("'", "''")\<close>\<close>
  "replace_quote s = concat (map (\<lambda>c. if c = CHR 0x27 then [c, c] else [c]) s)"

section \<open>routers/finder.py: cleaning of search values\<close>

definition MAX_RESULTS :: nat where
  "MAX_RESULTS = 15"

definition clean_search_value :: "string \<Rightarrow> string" where
  "clean_search_value v =
     (if v = [] then []
      else replace_quote (join ''-'' (map strip (split_on (CHR ''-'') (strip v)))))"

definition clean_type_value :: "string \<Rightarrow> string" where
  "clean_type_value v = (if v = [] then [] else join '' '' (split_ws v))"

section \<open>The store: queries, rows, failures\<close>

text \<open>
  The hosted table is an external collaborator. A query is the record of the builder calls
  made on it (\<open>select\<close>, \<open>eq\<close>, \<open>ilike\<close>, \<open>order\<close>, \<open>limit\<close>); \<open>execute()\<close> is a
  function from the query to the rows or to the exception it raises. A row is the Python
  dict of one record: each column is absent from the dict, JSON null, or a value. Text
  columns hold strings and the four cost columns hold numbers; \<open>col_Other\<close> are the
  table's further columns, which only the comparison of two rows reads.

  A number, whether Python holds it as an \<open>int\<close>, a \<open>float\<close> or a \<open>Decimal\<close>,
  is the rational that its decimal notation denotes, so that \<open>Decimal(str(x))\<close> has the
  value of \<open>x\<close> and \<open>Decimal\<close> arithmetic is exact. The rounding of binary floating
  point is not modelled.
\<close>

datatype cond = Eq string string | Ilike string string

record query =
  q_select :: string
  q_conds :: "cond list"
  q_order :: "(string \<times> bool) list"
  q_limit :: "nat option"

datatype 'a cell = Absent | Null | Val 'a

datatype jval = JNull | JNum rat | JStr string

record row =
  col_Name :: "string cell"
  col_Dosage :: "string cell"
  col_Formulation :: "string cell"
  col_Cost_of_branded :: "rat cell"
  col_Cost_of_generic :: "rat cell"
  col_Cost_difference :: "rat cell"
  col_Savings :: "rat cell"
  col_Type :: "string cell"
  col_Uses :: "string cell"
  col_Side_Effects :: "string cell"
  col_Other :: "(string \<times> jval) list"

datatype exn =
    HTTPException nat string
  | ValidationError "string list"
  | InvalidOperation
  | KeyError string
  | AttributeError
  | StoreError string
  | SupabaseConnectionError string

type_synonym store = "query \<Rightarrow> exn + row list"

definition table_select :: "string \<Rightarrow> query" where
  \<comment> \<open>\<open>supabase.table(MEDICINES_TABLE).select(columns)\<close>\<close>
  "table_select cols = \<lparr>q_select = cols, q_conds = [], q_order = [], q_limit = None\<rparr>"

definition q_eq :: "string \<Rightarrow> string \<Rightarrow> query \<Rightarrow> query" where
  "q_eq col v q = q\<lparr>q_conds := q_conds q @ [Eq col v]\<rparr>"

definition q_ilike :: "string \<Rightarrow> string \<Rightarrow> query \<Rightarrow> query" where
  "q_ilike col pat q = q\<lparr>q_conds := q_conds q @ [Ilike col pat]\<rparr>"

definition q_order_by :: "string \<Rightarrow> bool \<Rightarrow> query \<Rightarrow> query" where
  "q_order_by col desc q = q\<lparr>q_order := q_order q @ [(col, desc)]\<rparr>"

definition q_limit_to :: "nat \<Rightarrow> query \<Rightarrow> query" where
  "q_limit_to n q = q\<lparr>q_limit := Some n\<rparr>"

section \<open>HTTP replies\<close>

text \<open>
  What an endpoint answers: the response model with status 200, or an error status with
  the exception whose message is folded into the \<open>detail\<close> of the body (a
  \<open>JSONResponse\<close> returned by the handler, or an \<open>HTTPException\<close> leaving it).
\<close>

datatype 'a reply = Reply_ok 'a | Reply_error nat exn

fun status_code :: "'a reply \<Rightarrow> nat" where
  "status_code (Reply_ok _) = 200"
| "status_code (Reply_error n _) = n"

section \<open>models/schemas.py: Medicine\<close>

record medicine =
  name :: string
  dosage :: string
  formulation :: string
  cost_of_branded :: rat
  cost_of_generic :: rat
  cost_difference :: "rat option"
  savings :: "rat option"
  type :: string
  uses :: string
  side_effects :: string

text \<open>
  The validators of \<open>Medicine\<close>. \<open>values\<close> holds the fields validated before; a
  validator reads \<open>cost_of_branded\<close> and \<open>cost_of_generic\<close> from it, here as options
  (\<open>None\<close>: the field is not in \<open>values\<close>, it was missing or failed). A validator
  returns the value (\<open>Inr\<close>) or raises \<open>ValueError\<close> (\<open>Inl\<close>).

  The percentage is computed in binary floating point,
  \<open>round(((b - g) / b) * 100, 1)\<close> on \<open>float(b)\<close> and \<open>float(g)\<close>. Floating-point
  arithmetic is not modelled: the expression is the parameter \<open>pct\<close>, a function of the
  two prices. \<open>exact_pct\<close> is the expression in exact arithmetic, with Python's rounding
  of a tie to the even digit.
\<close>

definition round_half_even :: "rat \<Rightarrow> int" where
  "round_half_even x =
     (let f = \<lfloor>x\<rfloor>; d = x - of_int f
      in if d < 1 / 2 then f else if 1 / 2 < d then f + 1 else if even f then f else f + 1)"

definition exact_pct :: "rat \<Rightarrow> rat \<Rightarrow> rat" where
  "exact_pct b g = of_int (round_half_even ((((b - g) / b) * 100) * 10)) / 10"

definition validate_prices :: "rat \<Rightarrow> string + rat" where
  "validate_prices v = (if v < 0 then Inl ''Price cannot be negative'' else Inr v)"

definition validate_generic_price :: "rat \<Rightarrow> rat option \<Rightarrow> string + rat" where
  "validate_generic_price v branded =
     (case branded of
        Some branded_price \<Rightarrow>
          if v > branded_price then Inl ''Generic price cannot be higher than branded price''
          else Inr v
      | None \<Rightarrow> Inr v)"

definition calculate_cost_difference ::
    "rat option \<Rightarrow> rat option \<Rightarrow> rat option \<Rightarrow> string + rat option" where
  "calculate_cost_difference v branded generic =
     (case (branded, generic) of
        (Some branded_price, Some generic_price) \<Rightarrow>
          (let calculated_difference = branded_price - generic_price
           in if calculated_difference < 0 then Inl ''Cost difference cannot be negative''
              else Inr (Some calculated_difference))
      | _ \<Rightarrow> Inr v)"

definition calculate_savings ::
    "(rat \<Rightarrow> rat \<Rightarrow> rat) \<Rightarrow> rat option \<Rightarrow> rat option \<Rightarrow> rat option \<Rightarrow> rat option" where
  "calculate_savings pct v branded generic =
     (case (branded, generic) of
        (Some branded_price, Some generic_price) \<Rightarrow>
          if branded_price > 0 then Some (pct branded_price generic_price) else v
      | _ \<Rightarrow> v)"

text \<open>
  \<open>Medicine.model_validate(data)\<close>, as pydantic 2 runs a model that declares its
  validators with the older \<open>@validator\<close> (the module uses \<open>ConfigDict\<close> and
  \<open>model_validate\<close>): the fields are validated in the order of their declaration, each by its type and then by its validators in the order they are written.
  A required field that is missing or null fails; an optional field that is missing takes
  its default \<open>None\<close> and its validators are not run (none has \<open>always=True\<close>). A field
  that failed is not in \<open>values\<close> for the validators of later fields. All failures
  are collected: the result is the model, or a \<open>ValidationError\<close> naming the fields that
  failed.
\<close>

definition str_field :: "string cell \<Rightarrow> string option" where
  "str_field c = (case c of Val s \<Rightarrow> Some s | _ \<Rightarrow> None)"

definition ok_value :: "string + 'a \<Rightarrow> 'a option" where
  "ok_value r = (case r of Inl _ \<Rightarrow> None | Inr v \<Rightarrow> Some v)"

definition cell_option :: "'a cell \<Rightarrow> 'a option" where
  "cell_option c = (case c of Val v \<Rightarrow> Some v | _ \<Rightarrow> None)"

definition failed :: "string \<Rightarrow> 'a option \<Rightarrow> string list" where
  "failed field v = (case v of None \<Rightarrow> [field] | Some _ \<Rightarrow> [])"

definition Medicine_model_validate :: "(rat \<Rightarrow> rat \<Rightarrow> rat) \<Rightarrow> row \<Rightarrow> exn + medicine" where
  "Medicine_model_validate pct data =
     (let v_name = str_field (col_Name data);
          v_dosage = str_field (col_Dosage data);
          v_formulation = str_field (col_Formulation data);
          v_branded = (case col_Cost_of_branded data of
                         Val b \<Rightarrow> ok_value (validate_prices b) | _ \<Rightarrow> None);
          v_generic = (case col_Cost_of_generic data of
                         Val g \<Rightarrow> (case validate_prices g of
                                     Inl _ \<Rightarrow> None
                                   | Inr g' \<Rightarrow> ok_value (validate_generic_price g' v_branded))
                       | _ \<Rightarrow> None);
          v_difference = (case col_Cost_difference data of
                            Absent \<Rightarrow> Some None
                          | c \<Rightarrow> ok_value (calculate_cost_difference (cell_option c) v_branded v_generic));
          v_savings = (case col_Savings data of
                         Absent \<Rightarrow> None
                       | c \<Rightarrow> calculate_savings pct (cell_option c) v_branded v_generic);
          v_type = str_field (col_Type data);
          v_uses = str_field (col_Uses data);
          v_side_effects = str_field (col_Side_Effects data);
          errors = failed ''Name'' v_name @ failed ''Dosage'' v_dosage
                 @ failed ''Formulation'' v_formulation
                 @ failed ''Cost of branded'' v_branded @ failed ''Cost of generic'' v_generic
                 @ failed ''Cost difference'' v_difference
                 @ failed ''Type'' v_type @ failed ''Uses'' v_uses
                 @ failed ''Side Effects'' v_side_effects
      in if errors \<noteq> [] then Inl (ValidationError errors)
         else Inr \<lparr>name = the v_name, dosage = the v_dosage, formulation = the v_formulation,
                   cost_of_branded = the v_branded, cost_of_generic = the v_generic,
                   cost_difference = the v_difference, savings = v_savings,
                   type = the v_type, uses = the v_uses,
                   side_effects = the v_side_effects\<rparr>)"

section \<open>routers/finder.py: GET /finder/medicine/{name}\<close>

text \<open>
  The handler's \<open>try\<close> block raises \<open>HTTPException(404)\<close> on an empty result, and
  validates the first row otherwise; its \<open>except Exception as e\<close> catches every exception
  of the block, \<open>HTTPException\<close> included, and raises \<open>HTTPException(500, str(e))\<close>.
\<close>

definition get_medicine_details_body :: "(rat \<Rightarrow> rat \<Rightarrow> rat) \<Rightarrow> store \<Rightarrow> string \<Rightarrow> exn + medicine" where
  "get_medicine_details_body pct st nm =
     (case st (q_limit_to 1 (q_eq ''Name'' nm (table_select ''*''))) of
        Inl e \<Rightarrow> Inl e
      | Inr data \<Rightarrow>
          (case data of
             [] \<Rightarrow> Inl (HTTPException 404 ''Medicine not found'')
           | med # _ \<Rightarrow> Medicine_model_validate pct med))"

definition get_medicine_details :: "(rat \<Rightarrow> rat \<Rightarrow> rat) \<Rightarrow> store \<Rightarrow> string \<Rightarrow> medicine reply" where
  "get_medicine_details pct st nm =
     (case get_medicine_details_body pct st nm of
        Inr m \<Rightarrow> Reply_ok m
      | Inl e \<Rightarrow> Reply_error 500 e)"

section \<open>routers/finder.py: create_medicine_from_db\<close>

text \<open>
  \<open>create_medicine_from_db(data)\<close> first rewrites \<open>data\<close> in place and then validates
  it. \<open>derive_costs\<close> is the rewriting: \<open>Decimal(str(x))\<close> of a price that is present
  (\<open>Decimal('None')\<close> raises \<open>InvalidOperation\<close> for a null), then the two derived
  columns where they are missing or null. The caller's dict is the one rewritten, so the
  function returns the rewritten dict beside the model.
\<close>

definition to_Decimal :: "rat cell \<Rightarrow> exn + rat cell" where
  "to_Decimal c = (case c of Absent \<Rightarrow> Inr Absent | Null \<Rightarrow> Inl InvalidOperation | Val x \<Rightarrow> Inr (Val x))"

definition missing :: "'a cell \<Rightarrow> bool" where
  \<comment> \<open>\<open>key not in data or data[key] is None\<close>\<close>
  "missing c = (case c of Val _ \<Rightarrow> False | _ \<Rightarrow> True)"

definition derive_costs :: "(rat \<Rightarrow> rat \<Rightarrow> rat) \<Rightarrow> row \<Rightarrow> exn + row" where
  "derive_costs pct data =
     (case to_Decimal (col_Cost_of_branded data) of
        Inl e \<Rightarrow> Inl e
      | Inr cb \<Rightarrow>
     (case to_Decimal (col_Cost_of_generic data) of
        Inl e \<Rightarrow> Inl e
      | Inr cg \<Rightarrow>
          (let d1 = data\<lparr>col_Cost_of_branded := cb, col_Cost_of_generic := cg\<rparr>;
               d2 = (if missing (col_Cost_difference d1) then
                       (case (cb, cg) of
                          (Val b, Val g) \<Rightarrow> d1\<lparr>col_Cost_difference := Val (b - g)\<rparr>
                        | _ \<Rightarrow> d1)
                     else d1);
               d3 = (if missing (col_Savings d2) then
                       (case (cb, cg) of
                          (Val b, Val g) \<Rightarrow>
                            if b > 0 then d2\<lparr>col_Savings := Val (pct b g)\<rparr> else d2
                        | _ \<Rightarrow> d2)
                     else d2)
           in Inr d3)))"

definition create_medicine_from_db ::
    "(rat \<Rightarrow> rat \<Rightarrow> rat) \<Rightarrow> row \<Rightarrow> exn + (row \<times> medicine)" where
  "create_medicine_from_db pct data =
     (case derive_costs pct data of
        Inl e \<Rightarrow> Inl e
      | Inr data' \<Rightarrow>
          (case Medicine_model_validate pct data' of
             Inl e \<Rightarrow> Inl e
           | Inr m \<Rightarrow> Inr (data', m)))"


section \<open>models/schemas.py: MedicineSearchRequest\<close>

text \<open>
  The JSON body of a search: each of the four keys is absent, null or a string. The
  validated request holds \<open>None\<close> or a string per field; its fields \<open>name\<close>,
  \<open>formulation\<close>, \<open>type\<close> and \<open>dosage\<close> carry the prefix \<open>rq_\<close> here, the
  names themselves being fields of \<open>medicine\<close>.
\<close>

record search_body =
  body_Name :: "string cell"
  body_Formulation :: "string cell"
  body_Type :: "string cell"
  body_Dosage :: "string cell"

record MedicineSearchRequest =
  rq_name :: "string option"
  rq_formulation :: "string option"
  rq_type :: "string option"
  rq_dosage :: "string option"

definition validate_string_fields :: "string option \<Rightarrow> string option" where
  "validate_string_fields v =
     (case v of Some s \<Rightarrow> if length (strip s) = 0 then None else v | None \<Rightarrow> v)"

text \<open>
  \<open>values\<close> is the dict of the fields validated before this one, given here as the list
  of its values (a field that was not supplied is in it with its default \<open>None\<close>).
\<close>

definition validate_at_least_one_field ::
    "string option \<Rightarrow> string option list \<Rightarrow> string + string option" where
  "validate_at_least_one_field v vals =
     (if vals = [] then Inr v
      else if v \<noteq> None then Inr v
      else if list_ex (\<lambda>field_value. field_value \<noteq> None) vals then Inr v
      else Inl ''At least one search field must be provided'')"

text \<open>
  One field of the request: a key that is absent takes the default and runs no validator
  (neither has \<open>always=True\<close>); a key that is supplied, null included, runs both
  validators in the order they are written.
\<close>

definition search_field :: "string cell \<Rightarrow> string option list \<Rightarrow> string + string option" where
  "search_field c vals =
     (case c of
        Absent \<Rightarrow> Inr None
      | Null \<Rightarrow> validate_at_least_one_field (validate_string_fields None) vals
      | Val s \<Rightarrow> validate_at_least_one_field (validate_string_fields (Some s)) vals)"

definition validated :: "string + 'a \<Rightarrow> 'a list" where
  \<comment> \<open>what a field adds to \<open>values\<close>: itself when it passed, nothing when it failed\<close>
  "validated r = (case r of Inl _ \<Rightarrow> [] | Inr v \<Rightarrow> [v])"

definition MedicineSearchRequest_validate :: "search_body \<Rightarrow> exn + MedicineSearchRequest" where
  "MedicineSearchRequest_validate body =
     (let r_name = search_field (body_Name body) [];
          vals1 = validated r_name;
          r_formulation = search_field (body_Formulation body) vals1;
          vals2 = vals1 @ validated r_formulation;
          r_type = search_field (body_Type body) vals2;
          vals3 = vals2 @ validated r_type;
          r_dosage = search_field (body_Dosage body) vals3
      in case (r_name, r_formulation, r_type, r_dosage) of
           (Inr n, Inr f, Inr t, Inr d) \<Rightarrow>
             Inr \<lparr>rq_name = n, rq_formulation = f, rq_type = t, rq_dosage = d\<rparr>
         | _ \<Rightarrow>
             Inl (ValidationError
               ((if isl r_name then [''name''] else [])
                @ (if isl r_formulation then [''formulation''] else [])
                @ (if isl r_type then [''type''] else [])
                @ (if isl r_dosage then [''dosage''] else []))))"

section \<open>routers/finder.py: suggestions and their cache\<close>

text \<open>
  \<open>item.get(field)\<close> on a row: the value of a column by its name, \<open>None\<close> when the
  dict has no such key.
\<close>

definition text_value :: "string cell \<Rightarrow> jval option" where
  "text_value c = (case c of Absent \<Rightarrow> None | Null \<Rightarrow> Some JNull | Val s \<Rightarrow> Some (JStr s))"

definition num_value :: "rat cell \<Rightarrow> jval option" where
  "num_value c = (case c of Absent \<Rightarrow> None | Null \<Rightarrow> Some JNull | Val x \<Rightarrow> Some (JNum x))"

definition row_get :: "row \<Rightarrow> string \<Rightarrow> jval option" where
  "row_get r k =
     (if k = ''Name'' then text_value (col_Name r)
      else if k = ''Dosage'' then text_value (col_Dosage r)
      else if k = ''Formulation'' then text_value (col_Formulation r)
      else if k = ''Cost of branded'' then num_value (col_Cost_of_branded r)
      else if k = ''Cost of generic'' then num_value (col_Cost_of_generic r)
      else if k = ''Cost difference'' then num_value (col_Cost_difference r)
      else if k = ''Savings'' then num_value (col_Savings r)
      else if k = ''Type'' then text_value (col_Type r)
      else if k = ''Uses'' then text_value (col_Uses r)
      else if k = ''Side Effects'' then text_value (col_Side_Effects r)
      else map_of (col_Other r) k)"

definition str_values :: "string \<Rightarrow> row list \<Rightarrow> string list" where
  \<comment> \<open>the values kept by \<open>if value and isinstance(value, str)\<close>, in the order of the rows\<close>
  "str_values field data =
     concat (map (\<lambda>item. case row_get item field of
                            Some (JStr s) \<Rightarrow> if s \<noteq> [] then [s] else []
                          | _ \<Rightarrow> []) data)"

definition suggestion_query :: "string \<Rightarrow> string option \<Rightarrow> query" where
  "suggestion_query field query =
     (case query of
        Some s \<Rightarrow> if s \<noteq> [] then q_ilike field (''%'' @ clean_search_value s @ ''%'') (table_select field)
                  else table_select field
      | None \<Rightarrow> table_select field)"

text \<open>
  The body of \<open>get_cached_suggestions\<close>, without the cache: the suggestions and the
  queries it executed on the store. Every exception of the body is caught and answered
  by the empty list.
\<close>

definition fetch_suggestions :: "store \<Rightarrow> string \<Rightarrow> string option \<Rightarrow> string list \<times> query list" where
  "fetch_suggestions st field query =
     (let table_query = suggestion_query field query
      in case st table_query of
           Inl e \<Rightarrow> ([], [table_query])
         | Inr data \<Rightarrow>
             if data = [] then ([], [table_query])
             else (take 10 (sort (remdups (str_values field data))), [table_query]))"

text \<open>
  \<open>@lru_cache(maxsize=1000)\<close>: the entries, most recently used first, keyed by the
  arguments. A hit returns the stored result without running the body and makes the entry
  the most recent; a miss runs the body, stores what it returned, and drops the least
  recently used entry when the cache is full.
\<close>

type_synonym suggestion_cache = "((string \<times> string option) \<times> string list) list"

definition maxsize :: nat where
  "maxsize = 1000"

definition get_cached_suggestions ::
    "store \<Rightarrow> suggestion_cache \<Rightarrow> string \<Rightarrow> string option
      \<Rightarrow> string list \<times> suggestion_cache \<times> query list" where
  "get_cached_suggestions st cache field query =
     (case map_of cache (field, query) of
        Some result \<Rightarrow>
          (result, ((field, query), result) # filter (\<lambda>entry. fst entry \<noteq> (field, query)) cache, [])
      | None \<Rightarrow>
          (let (result, sent) = fetch_suggestions st field query;
               kept = (if length cache \<ge> maxsize then butlast cache else cache)
           in (result, ((field, query), result) # kept, sent)))"

definition get_all_types :: "store \<Rightarrow> string list \<times> query list" where
  "get_all_types st =
     (case st (table_select ''Type'') of
        Inl e \<Rightarrow> ([], [table_select ''Type''])
      | Inr data \<Rightarrow> (sort (remdups (str_values ''Type'' data)), [table_select ''Type'']))"

record AutocompleteSuggestion =
  sg_value :: string
  field_type :: string

record AutocompleteResponse =
  suggestions :: "AutocompleteSuggestion list"

definition valid_fields :: "string list" where
  "valid_fields = [''Name'', ''Formulation'', ''Type'', ''Dosage'']"

definition validate_field_type :: "string \<Rightarrow> string + string" where
  "validate_field_type v =
     (if v \<notin> set valid_fields then Inl ''field_type must be one of the valid types'' else Inr v)"

definition make_suggestion :: "string \<Rightarrow> string \<Rightarrow> exn + AutocompleteSuggestion" where
  \<comment> \<open>\<open>AutocompleteSuggestion(value=value, field_type=field)\<close>\<close>
  "make_suggestion v field =
     (case validate_field_type field of
        Inl _ \<Rightarrow> Inl (ValidationError [''field_type''])
      | Inr ft \<Rightarrow> Inr \<lparr>sg_value = v, field_type = ft\<rparr>)"

fun make_all :: "('a \<Rightarrow> exn + 'b) \<Rightarrow> 'a list \<Rightarrow> exn + 'b list" where
  "make_all f [] = Inr []"
| "make_all f (x # xs) =
     (case f x of
        Inl e \<Rightarrow> Inl e
      | Inr y \<Rightarrow> (case make_all f xs of Inl e \<Rightarrow> Inl e | Inr ys \<Rightarrow> Inr (y # ys)))"

text \<open>
  The handler of \<open>GET /finder/suggestions/{field}\<close>. Its \<open>try\<close> block raises
  \<open>HTTPException(400)\<close> for an invalid field before anything else; the handler's own
  \<open>except SupabaseConnectionError\<close> answers 503 and its \<open>except Exception\<close> answers 500
  for every other exception of the block, \<open>HTTPException\<close> included. The result is the
  reply, the cache after the call and the queries executed on the store.
\<close>

definition get_suggestions_body ::
    "store \<Rightarrow> suggestion_cache \<Rightarrow> string \<Rightarrow> string option
      \<Rightarrow> (exn + AutocompleteResponse) \<times> suggestion_cache \<times> query list" where
  "get_suggestions_body st cache field query =
     (if field \<notin> set valid_fields then
        (Inl (HTTPException 400 ''Invalid field. Must be one of: Name, Formulation, Type, Dosage''),
         cache, [])
      else
        (let (found, cache', sent) = get_cached_suggestions st cache field query;
             sent' = (if field = ''Type'' then sent @ snd (get_all_types st) else sent)
         in (case make_all (\<lambda>v. make_suggestion v field) found of
               Inl e \<Rightarrow> (Inl e, cache', sent')
             | Inr ss \<Rightarrow> (Inr \<lparr>suggestions = ss\<rparr>, cache', sent'))))"

definition get_suggestions ::
    "store \<Rightarrow> suggestion_cache \<Rightarrow> string \<Rightarrow> string option
      \<Rightarrow> AutocompleteResponse reply \<times> suggestion_cache \<times> query list" where
  "get_suggestions st cache field query =
     (case get_suggestions_body st cache field query of
        (Inr response, cache', sent) \<Rightarrow> (Reply_ok response, cache', sent)
      | (Inl (SupabaseConnectionError msg), cache', sent) \<Rightarrow>
          (Reply_error 503 (SupabaseConnectionError msg), cache', sent)
      | (Inl e, cache', sent) \<Rightarrow> (Reply_error 500 e, cache', sent))"

section \<open>routers/finder.py: POST /finder/search\<close>

definition field_mapping :: "string \<Rightarrow> string option" where
  "field_mapping = map_of
     [(''type'', ''Type''), (''name'', ''Name''), (''formulation'', ''Formulation''),
      (''dosage'', ''Dosage''), (''Type'', ''Type''), (''Name'', ''Name''),
      (''Formulation'', ''Formulation''), (''Dosage'', ''Dosage'')]"

definition build_search_query :: "query \<Rightarrow> string \<Rightarrow> string \<Rightarrow> bool \<Rightarrow> query" where
  "build_search_query table_query field v exact =
     (if v = [] then table_query
      else
        (case field_mapping field of
           None \<Rightarrow> table_query
         | Some db_field \<Rightarrow>
             if db_field = ''Type'' then
               (let cleaned_value = clean_type_value v
                in if cleaned_value = [] then table_query
                   else q_ilike db_field (''%'' @ cleaned_value @ ''%'') table_query)
             else
               (let cleaned_value = clean_search_value v
                in if cleaned_value = [] then table_query
                   else if exact then q_eq db_field cleaned_value table_query
                   else q_ilike db_field (''%'' @ cleaned_value @ ''%'') table_query)))"

datatype sort_order = none | low_to_high | high_to_low

record SearchResponse =
  exact_match :: "medicine option"
  similar_formulations :: "medicine list"
  Uses :: "string option"
  Side_Effects :: "string option"

definition truthy :: "string option \<Rightarrow> bool" where
  \<comment> \<open>the truth value of an \<open>Optional[str]\<close>: neither \<open>None\<close> nor empty\<close>
  "truthy v = (case v of None \<Rightarrow> False | Some s \<Rightarrow> s \<noteq> [])"

definition is_type_or_dosage_search :: "MedicineSearchRequest \<Rightarrow> bool" where
  "is_type_or_dosage_search rq =
     ((truthy (rq_type rq) \<or> truthy (rq_dosage rq))
      \<and> \<not> (truthy (rq_name rq) \<or> truthy (rq_formulation rq)))"

definition add_filter :: "string \<Rightarrow> string option \<Rightarrow> query \<Rightarrow> query" where
  \<comment> \<open>\<open>if search_request.f: query = build_search_query(query, "f", search_request.f)\<close>\<close>
  "add_filter field v q = (if truthy v then build_search_query q field (the v) False else q)"

definition search_query :: "MedicineSearchRequest \<Rightarrow> sort_order option \<Rightarrow> query" where
  "search_query rq so =
     (let q0 = table_select ''*'';
          q1 = add_filter ''type'' (rq_type rq) q0;
          q2 = add_filter ''formulation'' (rq_formulation rq) q1;
          q3 = add_filter ''name'' (rq_name rq) q2;
          q4 = add_filter ''dosage'' (rq_dosage rq) q3;
          q5 = (case so of
                  None \<Rightarrow> q4
                | Some s \<Rightarrow> if s \<noteq> none then q_order_by ''Cost of branded'' (s = high_to_low) q4
                            else q4)
      in if is_type_or_dosage_search rq then q_limit_to MAX_RESULTS q5 else q5)"

text \<open>
  \<open>[m for m in medicines if m[key].lower() == value.lower()]\<close>: a row without the key
  raises \<open>KeyError\<close>, a null value has no \<open>lower\<close> and raises \<open>AttributeError\<close>; the
  first row that raises ends the comprehension.
\<close>

fun exact_matches :: "(row \<Rightarrow> string cell) \<Rightarrow> string \<Rightarrow> string \<Rightarrow> row list \<Rightarrow> exn + row list" where
  "exact_matches col key v [] = Inr []"
| "exact_matches col key v (m # ms) =
     (case col m of
        Absent \<Rightarrow> Inl (KeyError key)
      | Null \<Rightarrow> Inl AttributeError
      | Val s \<Rightarrow>
          (case exact_matches col key v ms of
             Inl e \<Rightarrow> Inl e
           | Inr found \<Rightarrow> Inr (if lower s = lower v then m # found else found)))"

definition first_of :: "'a list \<Rightarrow> 'a option" where
  \<comment> \<open>\<open>exact_matches[0] if exact_matches else None\<close>\<close>
  "first_of xs = (case xs of [] \<Rightarrow> None | x # _ \<Rightarrow> Some x)"

definition find_exact_match_data :: "MedicineSearchRequest \<Rightarrow> row list \<Rightarrow> exn + row option" where
  "find_exact_match_data rq medicines =
     (if truthy (rq_name rq) then
        (case exact_matches col_Name ''Name'' (the (rq_name rq)) medicines of
           Inl e \<Rightarrow> Inl e | Inr found \<Rightarrow> Inr (first_of found))
      else if truthy (rq_formulation rq) then
        (case exact_matches col_Formulation ''Formulation'' (the (rq_formulation rq)) medicines of
           Inl e \<Rightarrow> Inl e | Inr found \<Rightarrow> Inr (first_of found))
      else Inr None)"

text \<open>
  \<open>exact_match_data\<close> is an element of \<open>medicines\<close>, and \<open>create_medicine_from_db\<close>
  rewrites it in place: after the call the list holds the rewritten dict at the place of
  the exact match, the first place where its value stands. \<open>replace_first\<close> is that
  update of the list.
\<close>

fun replace_first :: "'a \<Rightarrow> 'a \<Rightarrow> 'a list \<Rightarrow> 'a list" where
  "replace_first old new [] = []"
| "replace_first old new (x # xs) = (if x = old then new # xs else x # replace_first old new xs)"

definition safe_get :: "row option \<Rightarrow> (row \<Rightarrow> string cell) \<Rightarrow> string option" where
  "safe_get data col = (case data of None \<Rightarrow> None | Some d \<Rightarrow> cell_option (col d))"

text \<open>
  The handler. An exception of the store, of the matching or of a conversion is caught
  by the nested \<open>except Exception\<close> clauses, each wrapping the message of the one before,
  and the handler returns a \<open>JSONResponse\<close> with status 500: the reply carries the first
  exception. The call of \<open>get_all_types\<close> at the start only logs; its exceptions are
  caught inside it.
\<close>

definition search_medicines_body ::
    "(rat \<Rightarrow> rat \<Rightarrow> rat) \<Rightarrow> store \<Rightarrow> MedicineSearchRequest \<Rightarrow> sort_order option
      \<Rightarrow> exn + SearchResponse" where
  "search_medicines_body pct st rq so =
     (case st (search_query rq so) of
        Inl e \<Rightarrow> Inl e
      | Inr medicines \<Rightarrow>
          if medicines = [] then
            Inr \<lparr>exact_match = None, similar_formulations = [], Uses = None, Side_Effects = None\<rparr>
          else if is_type_or_dosage_search rq then
            (case make_all (create_medicine_from_db pct) medicines of
               Inl e \<Rightarrow> Inl e
             | Inr processed \<Rightarrow>
                 Inr \<lparr>exact_match = None, similar_formulations = map snd processed,
                      Uses = None, Side_Effects = None\<rparr>)
          else
            (case find_exact_match_data rq medicines of
               Inl e \<Rightarrow> Inl e
             | Inr None \<Rightarrow>
                 (case make_all (create_medicine_from_db pct) medicines of
                    Inl e \<Rightarrow> Inl e
                  | Inr processed \<Rightarrow>
                      Inr \<lparr>exact_match = None, similar_formulations = map snd processed,
                           Uses = safe_get None col_Uses,
                           Side_Effects = safe_get None col_Side_Effects\<rparr>)
             | Inr (Some exact_match_data) \<Rightarrow>
                 (case create_medicine_from_db pct exact_match_data of
                    Inl e \<Rightarrow> Inl e
                  | Inr (rewritten, exact_match_medicine) \<Rightarrow>
                      (case make_all (create_medicine_from_db pct)
                              (filter (\<lambda>m. m \<noteq> rewritten)
                                 (replace_first exact_match_data rewritten medicines)) of
                         Inl e \<Rightarrow> Inl e
                       | Inr processed \<Rightarrow>
                           Inr \<lparr>exact_match = Some exact_match_medicine,
                                similar_formulations = map snd processed,
                                Uses = safe_get (Some rewritten) col_Uses,
                                Side_Effects = safe_get (Some rewritten) col_Side_Effects\<rparr>))))"

definition search_medicines ::
    "(rat \<Rightarrow> rat \<Rightarrow> rat) \<Rightarrow> store \<Rightarrow> MedicineSearchRequest \<Rightarrow> sort_order option
      \<Rightarrow> SearchResponse reply" where
  "search_medicines pct st rq so =
     (case search_medicines_body pct st rq so of
        Inl e \<Rightarrow> Reply_error 500 e
      | Inr response \<Rightarrow> Reply_ok response)"

section \<open>A store over a table held in memory\<close>

text \<open>
  The handlers take the store as a parameter. \<open>table_store\<close> is one store, used to
  run them: it answers a query from a list of rows, with the conditions conjoined, the
  order by the branded price (rows without one last) and the limit keeping the first
  rows. A pattern is a text between two \<open>%\<close> signs, matched as a substring without
  regard to case. \<open>honours_limit\<close> is the part of the collaborator's contract that a
  property of the handlers relies on: a query with a limit is answered by no more rows.
\<close>

fun contains :: "string \<Rightarrow> string \<Rightarrow> bool" where
  "contains sub [] = (sub = [])"
| "contains sub (x # xs) = (take (length sub) (x # xs) = sub \<or> contains sub xs)"

definition pattern_text :: "string \<Rightarrow> string" where
  "pattern_text pat = butlast (tl pat)"

definition satisfies :: "row \<Rightarrow> cond \<Rightarrow> bool" where
  "satisfies r c =
     (case c of
        Eq col v \<Rightarrow> row_get r col = Some (JStr v)
      | Ilike col pat \<Rightarrow>
          (case row_get r col of
             Some (JStr s) \<Rightarrow> contains (lower (pattern_text pat)) (lower s)
           | _ \<Rightarrow> False))"

definition priced :: "row \<Rightarrow> bool" where
  "priced r = (\<not> missing (col_Cost_of_branded r))"

definition price_key :: "row \<Rightarrow> rat" where
  "price_key r = (case col_Cost_of_branded r of Val x \<Rightarrow> x | _ \<Rightarrow> 0)"

definition ordered :: "(string \<times> bool) list \<Rightarrow> row list \<Rightarrow> row list" where
  "ordered ord rows =
     (case ord of
        [] \<Rightarrow> rows
      | (col, desc) # _ \<Rightarrow>
          (if desc then rev (sort_key price_key (rev (filter priced rows)))
           else sort_key price_key (filter priced rows))
          @ filter (\<lambda>r. \<not> priced r) rows)"

definition limited :: "nat option \<Rightarrow> row list \<Rightarrow> row list" where
  "limited bound rows = (case bound of None \<Rightarrow> rows | Some n \<Rightarrow> take n rows)"

definition table_store :: "row list \<Rightarrow> store" where
  "table_store tbl q =
     Inr (limited (q_limit q)
            (ordered (q_order q) (filter (\<lambda>r. list_all (satisfies r) (q_conds q)) tbl)))"

definition honours_limit :: "store \<Rightarrow> bool" where
  "honours_limit st = (\<forall>q rows n. st q = Inr rows \<and> q_limit q = Some n \<longrightarrow> length rows \<le> n)"




section \<open>Sample records\<close>

text \<open>Concrete rows of the table, used to run the definitions.\<close>

definition glimepride :: row where
  "glimepride =
     \<lparr>col_Name = Val ''TAB GLIMEPRIDE'', col_Dosage = Val ''1mg'',
      col_Formulation = Val ''Glimepiride 1mg'',
      col_Cost_of_branded = Val 10, col_Cost_of_generic = Val 4,
      col_Cost_difference = Null, col_Savings = Null,
      col_Type = Val ''A-Anti Diabetic'', col_Uses = Val ''Type 2 diabetes'',
      col_Side_Effects = Val ''Nausea'', col_Other = []\<rparr>"


definition overpriced_generic :: row where
  "overpriced_generic = glimepride\<lparr>col_Cost_of_branded := Val 4, col_Cost_of_generic := Val 10\<rparr>"



definition store_down :: store where
  "store_down = (\<lambda>q. Inl (StoreError ''connection refused''))"

definition store_up :: store where
  "store_up = (\<lambda>q. Inr [glimepride])"

definition twin :: row where
  \<comment> \<open>a row with every column filled in\<close>
  "twin = glimepride\<lparr>col_Cost_difference := Val 6, col_Savings := Val 60\<rparr>"

definition twin_medicine :: medicine where
  "twin_medicine =
     \<lparr>name = ''TAB GLIMEPRIDE'', dosage = ''1mg'', formulation = ''Glimepiride 1mg'',
      cost_of_branded = 10, cost_of_generic = 4, cost_difference = Some 6,
      savings = Some 60, type = ''A-Anti Diabetic'', uses = ''Type 2 diabetes'',
      side_effects = ''Nausea''\<rparr>"


definition by_type :: "string \<Rightarrow> MedicineSearchRequest" where
  "by_type s = \<lparr>rq_name = None, rq_formulation = None, rq_type = Some s, rq_dosage = None\<rparr>"





section \<open>Properties\<close>

subsection \<open>Mapping a row to a Medicine\<close>

lemma derive_costs_Val:
  assumes "col_Cost_of_branded r = Val b" "col_Cost_of_generic r = Val g"
  shows "\<exists>r'. derive_costs pct r = Inr r'
      \<and> col_Cost_of_branded r' = Val b \<and> col_Cost_of_generic r' = Val g
      \<and> col_Cost_difference r' = (if missing (col_Cost_difference r) then Val (b - g) else col_Cost_difference r)
      \<and> col_Savings r' = (if missing (col_Savings r) \<and> b > 0 then Val (pct b g) else col_Savings r)
      \<and> col_Name r' = col_Name r \<and> col_Dosage r' = col_Dosage r
      \<and> col_Formulation r' = col_Formulation r \<and> col_Type r' = col_Type r
      \<and> col_Uses r' = col_Uses r \<and> col_Side_Effects r' = col_Side_Effects r"
  using assms by (simp add: derive_costs_def to_Decimal_def Let_def)



lemma validate_generic_above:
  assumes "col_Cost_of_branded r = Val b" "col_Cost_of_generic r = Val g" "b < g"
  shows "\<exists>errs. Medicine_model_validate pct r = Inl (ValidationError errs)
      \<and> (''Cost of generic'' \<in> set errs \<or> ''Cost of branded'' \<in> set errs)"
proof (cases "b < 0")
  case True
  with assms have "failed ''Cost of branded''
      (case col_Cost_of_branded r of Val b \<Rightarrow> ok_value (validate_prices b) | _ \<Rightarrow> None)
      = [''Cost of branded'']"
    by (simp add: failed_def ok_value_def validate_prices_def)
  then show ?thesis
    by (simp add: Medicine_model_validate_def Let_def)
next
  case False
  with assms have "failed ''Cost of generic''
      (case col_Cost_of_generic r of
         Val g \<Rightarrow> (case validate_prices g of
                     Inl _ \<Rightarrow> None
                   | Inr g' \<Rightarrow> ok_value (validate_generic_price g'
                        (case col_Cost_of_branded r of Val b \<Rightarrow> ok_value (validate_prices b) | _ \<Rightarrow> None)))
       | _ \<Rightarrow> None)
      = [''Cost of generic'']"
    by (simp add: failed_def ok_value_def validate_prices_def validate_generic_price_def)
  then show ?thesis
    by (simp add: Medicine_model_validate_def Let_def)
qed

lemma create_generic_above:
  assumes "col_Cost_of_branded r = Val b" "col_Cost_of_generic r = Val g" "b < g"
  shows "\<exists>errs. create_medicine_from_db pct r = Inl (ValidationError errs)
      \<and> (''Cost of generic'' \<in> set errs \<or> ''Cost of branded'' \<in> set errs)"
proof -
  obtain r' where d: "derive_costs pct r = Inr r'"
    and cb: "col_Cost_of_branded r' = Val b" and cg: "col_Cost_of_generic r' = Val g"
    using derive_costs_Val [OF assms(1,2), of pct] by blast
  from validate_generic_above [OF cb cg assms(3), of pct] d show ?thesis
    by (auto simp add: create_medicine_from_db_def)
qed






text \<open>
  C6. For every raw record whose generic cost is strictly greater than its branded cost,
  mapping fails with a validation error that names a cost field, through
  \<open>create_medicine_from_db\<close> and through \<open>Medicine.model_validate\<close> alike: no
  medicine is produced, so the violation is never silently corrected.
\<close>

theorem generic_above_branded_fails:
  assumes "col_Cost_of_branded r = Val b" and "col_Cost_of_generic r = Val g" and "b < g"
  shows "(\<exists>errs. create_medicine_from_db pct r = Inl (ValidationError errs)
            \<and> (''Cost of generic'' \<in> set errs \<or> ''Cost of branded'' \<in> set errs))
       \<and> (\<exists>errs. Medicine_model_validate pct r = Inl (ValidationError errs)
            \<and> (''Cost of generic'' \<in> set errs \<or> ''Cost of branded'' \<in> set errs))"
  using create_generic_above [OF assms, of pct] validate_generic_above [OF assms, of pct]
  by blast

theorem generic_above_branded_fails_witness:
  "(\<exists>errs. create_medicine_from_db exact_pct overpriced_generic = Inl (ValidationError errs))
   \<and> (\<exists>errs. Medicine_model_validate exact_pct overpriced_generic = Inl (ValidationError errs))"
proof -
  have h: "col_Cost_of_branded overpriced_generic = Val 4"
    "col_Cost_of_generic overpriced_generic = Val 10" "(4::rat) < 10"
    by (simp_all add: overpriced_generic_def glimepride_def)
  from generic_above_branded_fails [OF h, of exact_pct] show ?thesis by blast
qed




subsection \<open>GET /finder/medicine/{name}\<close>

text \<open>
  C1. When the store returns zero rows for the exact-name lookup, the handler raises the
  404 inside its own \<open>try\<close>, the blanket \<open>except\<close> catches it, and the endpoint answers
  500 with the 404 as detail: for every name and every store that returns no row for the
  lookup query, the status is 500, never 404.
\<close>

theorem get_medicine_details_miss_is_500:
  "get_medicine_details pct (\<lambda>q. Inr []) nm
     = Reply_error 500 (HTTPException 404 ''Medicine not found'')
   \<and> status_code (get_medicine_details pct (\<lambda>q. Inr []) nm) \<noteq> 404"
  by (simp add: get_medicine_details_def get_medicine_details_body_def)

subsection \<open>Validation of the search request\<close>

lemma strip_empty: "strip [] = []"
  by (simp add: strip_def)

lemma strip_spaces: "strip ''  '' = []"
  by (simp add: strip_def isspace_def)

lemma strip_Anti: "strip ''Anti'' = ''Anti''"
  by (simp add: strip_def isspace_def)

text \<open>
  C8. The validators run only for the keys the body supplies and each looks only at the
  fields before its own. A body with no key at all is accepted with every field \<open>None\<close>,
  and so is a body whose only key is a blank \<open>Name\<close>; a body with blank \<open>Name\<close> and
  \<open>Formulation\<close> and the type \<open>Anti\<close> is rejected at \<open>formulation\<close>, although a
  later field is not empty.
\<close>

theorem search_request_validation_misses:
  "MedicineSearchRequest_validate
     \<lparr>body_Name = Absent, body_Formulation = Absent, body_Type = Absent, body_Dosage = Absent\<rparr>
     = Inr \<lparr>rq_name = None, rq_formulation = None, rq_type = None, rq_dosage = None\<rparr>
   \<and> MedicineSearchRequest_validate
     \<lparr>body_Name = Val ''  '', body_Formulation = Absent, body_Type = Absent, body_Dosage = Absent\<rparr>
     = Inr \<lparr>rq_name = None, rq_formulation = None, rq_type = None, rq_dosage = None\<rparr>
   \<and> MedicineSearchRequest_validate
     \<lparr>body_Name = Val [], body_Formulation = Val [], body_Type = Val ''Anti'', body_Dosage = Absent\<rparr>
     = Inl (ValidationError [''formulation''])"
  by (simp add: MedicineSearchRequest_validate_def search_field_def validated_def
      validate_string_fields_def validate_at_least_one_field_def
      strip_empty strip_spaces strip_Anti)

subsection \<open>Suggestions\<close>

lemma make_all_valid:
  "field \<in> set valid_fields \<Longrightarrow>
     make_all (\<lambda>v. make_suggestion v field) xs
       = Inr (map (\<lambda>v. \<lparr>sg_value = v, field_type = field\<rparr>) xs)"
  by (induction xs) (simp_all add: make_suggestion_def validate_field_type_def)

lemma get_suggestions_valid:
  assumes "field \<in> set valid_fields"
  shows "fst (get_suggestions st cache field query)
     = Reply_ok \<lparr>suggestions = map (\<lambda>v. \<lparr>sg_value = v, field_type = field\<rparr>)
                   (fst (get_cached_suggestions st cache field query))\<rparr>"
  using assms
  by (simp add: get_suggestions_def get_suggestions_body_def make_all_valid
      split: prod.splits)

lemma fetch_failure:
  "st (suggestion_query field query) = Inl e \<Longrightarrow>
     fetch_suggestions st field query = ([], [suggestion_query field query])"
  by (simp add: fetch_suggestions_def)

lemma cached_miss_failure:
  assumes "map_of cache (field, query) = None" and "st (suggestion_query field query) = Inl e"
  shows "get_cached_suggestions st cache field query
     = ([], ((field, query), []) # (if length cache \<ge> maxsize then butlast cache else cache),
        [suggestion_query field query])"
  using assms by (simp add: get_cached_suggestions_def fetch_failure)

lemma cached_hit:
  assumes "map_of c (field, query) = Some result"
  shows "get_cached_suggestions st c field query
     = (result, ((field, query), result) # filter (\<lambda>entry. fst entry \<noteq> (field, query)) c, [])"
  using assms by (simp add: get_cached_suggestions_def)

lemma map_of_filter_other:
  "k \<noteq> k' \<Longrightarrow> map_of (filter (\<lambda>entry. fst entry \<noteq> k') c) k = map_of c k"
  by (induction c) auto

lemma cached_other_key_keeps:
  assumes "map_of c k = Some v" and "(field, query) \<noteq> k" and "length c < maxsize"
  shows "map_of (fst (snd (get_cached_suggestions st c field query))) k = Some v"
proof (cases "map_of c (field, query)")
  case None
  then show ?thesis using assms
    by (simp add: get_cached_suggestions_def split: prod.splits)
next
  case (Some r)
  then show ?thesis using assms map_of_filter_other [of k "(field, query)" c]
    by (simp add: cached_hit)
qed

text \<open>
  C2. For every field outside Name, Formulation, Type and Dosage the handler raises the
  400 inside its own \<open>try\<close>, its \<open>except Exception\<close> catches it, and the endpoint
  answers 500 with the 400 as detail. The store is not queried and the cache is unchanged.
\<close>

theorem invalid_field_is_500:
  assumes "field \<notin> set valid_fields"
  shows "get_suggestions st cache field query
     = (Reply_error 500
          (HTTPException 400 ''Invalid field. Must be one of: Name, Formulation, Type, Dosage''),
        cache, [])"
  using assms by (simp add: get_suggestions_def get_suggestions_body_def)

theorem invalid_field_is_500_witness:
  "status_code (fst (get_suggestions store_up [] ''Brand'' (Some ''glim''))) = 500
   \<and> snd (snd (get_suggestions store_up [] ''Brand'' (Some ''glim''))) = []"
proof -
  have "''Brand'' \<notin> set valid_fields" by (simp add: valid_fields_def)
  from invalid_field_is_500 [OF this, of store_up "[]" "Some ''glim''"] show ?thesis by simp
qed

text \<open>
  C9. For every valid field, query text, cache and store, the endpoint answers 200; and
  when the suggestions are fetched (the pair is not in the cache) and the store raises,
  whatever the exception, the answer is the empty suggestions list.
\<close>

theorem suggestions_store_failure_is_empty_200:
  assumes "field \<in> set valid_fields"
  shows "status_code (fst (get_suggestions st cache field query)) = 200
       \<and> (map_of cache (field, query) = None \<and> isl (st (suggestion_query field query))
            \<longrightarrow> fst (get_suggestions st cache field query) = Reply_ok \<lparr>suggestions = []\<rparr>)"
proof (intro conjI impI)
  show "status_code (fst (get_suggestions st cache field query)) = 200"
    by (simp add: get_suggestions_valid [OF assms])
next
  assume h: "map_of cache (field, query) = None \<and> isl (st (suggestion_query field query))"
  then obtain e where "st (suggestion_query field query) = Inl e"
    by (cases "st (suggestion_query field query)") auto
  with h have "fst (get_cached_suggestions st cache field query) = []"
    by (simp add: cached_miss_failure)
  then show "fst (get_suggestions st cache field query) = Reply_ok \<lparr>suggestions = []\<rparr>"
    by (simp add: get_suggestions_valid [OF assms])
qed

theorem suggestions_store_failure_is_empty_200_witness:
  "fst (get_suggestions store_down [] ''Type'' (Some ''diab'')) = Reply_ok \<lparr>suggestions = []\<rparr>
   \<and> status_code (fst (get_suggestions store_down [] ''Type'' (Some ''diab''))) = 200"
proof -
  have "''Type'' \<in> set valid_fields" by (simp add: valid_fields_def)
  from suggestions_store_failure_is_empty_200 [OF this, of store_down "[]" "Some ''diab''"]
  show ?thesis by (simp add: store_down_def)
qed

text \<open>
  C10. After a store failure while fetching the suggestions of a (field, query) pair, the
  empty list is stored in the cache under that pair. From any cache that holds this entry,
  a call with the same pair returns the empty list and executes no query, whatever the
  store then answers, and the entry stays; a call with another pair keeps the entry as
  long as the cache is not full.
\<close>

theorem suggestion_cache_memoizes_failures:
  assumes "map_of cache (field, query) = None" and "st (suggestion_query field query) = Inl e"
  shows "fst (get_cached_suggestions st cache field query) = []
       \<and> map_of (fst (snd (get_cached_suggestions st cache field query))) (field, query) = Some []
       \<and> (\<forall>c st'. map_of c (field, query) = Some []
            \<longrightarrow> fst (get_cached_suggestions st' c field query) = []
              \<and> snd (snd (get_cached_suggestions st' c field query)) = []
              \<and> map_of (fst (snd (get_cached_suggestions st' c field query))) (field, query) = Some [])
       \<and> (\<forall>c st' field' query'. map_of c (field, query) = Some [] \<and> (field', query') \<noteq> (field, query)
              \<and> length c < maxsize
            \<longrightarrow> map_of (fst (snd (get_cached_suggestions st' c field' query'))) (field, query) = Some [])"
proof (intro conjI allI impI)
  show "fst (get_cached_suggestions st cache field query) = []"
    and "map_of (fst (snd (get_cached_suggestions st cache field query))) (field, query) = Some []"
    using assms by (simp_all add: cached_miss_failure)
next
  fix c :: suggestion_cache and st' :: store
  assume "map_of c (field, query) = Some []"
  from cached_hit [OF this, of st']
  show "fst (get_cached_suggestions st' c field query) = []"
    and "snd (snd (get_cached_suggestions st' c field query)) = []"
    and "map_of (fst (snd (get_cached_suggestions st' c field query))) (field, query) = Some []"
    by simp_all
next
  fix c :: suggestion_cache and st' :: store and field' :: string and query' :: "string option"
  assume "map_of c (field, query) = Some [] \<and> (field', query') \<noteq> (field, query) \<and> length c < maxsize"
  then show "map_of (fst (snd (get_cached_suggestions st' c field' query'))) (field, query) = Some []"
    using cached_other_key_keeps [of c "(field, query)" "[]" field' query' st'] by simp
qed

theorem suggestion_cache_memoizes_failures_witness:
  "fst (get_cached_suggestions store_down [] ''Type'' (Some ''diab'')) = []
   \<and> fst (get_cached_suggestions store_up
            (fst (snd (get_cached_suggestions store_down [] ''Type'' (Some ''diab''))))
            ''Type'' (Some ''diab'')) = []
   \<and> snd (snd (get_cached_suggestions store_up
            (fst (snd (get_cached_suggestions store_down [] ''Type'' (Some ''diab''))))
            ''Type'' (Some ''diab''))) = []
   \<and> fst (get_cached_suggestions store_up [] ''Type'' (Some ''diab'')) = [''A-Anti Diabetic'']"
proof -
  have h: "map_of ([] :: suggestion_cache) (''Type'', Some ''diab'') = None"
    "store_down (suggestion_query ''Type'' (Some ''diab'')) = Inl (StoreError ''connection refused'')"
    by (simp_all add: store_down_def)
  have up: "fst (get_cached_suggestions store_up [] ''Type'' (Some ''diab'')) = [''A-Anti Diabetic'']"
    by (simp add: get_cached_suggestions_def fetch_suggestions_def store_up_def str_values_def
        row_get_def text_value_def glimepride_def)
  from suggestion_cache_memoizes_failures
    [of "[]" "''Type''" "Some ''diab''" store_down "StoreError ''connection refused''", OF h] up
  show ?thesis by (simp add: cached_miss_failure [of "[]" "''Type''" "Some ''diab''" store_down, OF h])
qed

subsection \<open>POST /finder/search\<close>

lemma make_all_map: "make_all f xs = Inr ys \<Longrightarrow> map f xs = map Inr ys"
  by (induction xs arbitrary: ys) (auto split: sum.splits)

lemma make_all_length: "make_all f xs = Inr ys \<Longrightarrow> length ys = length xs"
  using make_all_map [of f xs ys] by (metis length_map)








lemma browse_query_limit:
  "is_type_or_dosage_search rq \<Longrightarrow> q_limit (search_query rq so) = Some MAX_RESULTS"
  by (simp add: search_query_def q_limit_to_def Let_def)


lemma honours_limit_table_store: "honours_limit (table_store tbl)"
  by (auto simp add: honours_limit_def table_store_def limited_def)

text \<open>
  C4. For every search request in browse mode (type or dosage set, neither name nor
  formulation set), every store that honours the row limit of a query and every sort
  order, a search response has no exact match and at most 15 similar formulations.
\<close>

theorem browse_mode_has_no_exact_match:
  assumes "honours_limit st" and "is_type_or_dosage_search rq"
    and "search_medicines pct st rq so = Reply_ok resp"
  shows "exact_match resp = None \<and> length (similar_formulations resp) \<le> 15"
proof -
  from assms(3) have body: "search_medicines_body pct st rq so = Inr resp"
    by (simp add: search_medicines_def split: sum.splits)
  then obtain medicines where got: "st (search_query rq so) = Inr medicines"
    by (auto simp add: search_medicines_body_def split: sum.splits)
  have "q_limit (search_query rq so) = Some MAX_RESULTS"
    using assms(2) by (rule browse_query_limit)
  with assms(1) got have len: "length medicines \<le> 15"
    by (auto simp add: honours_limit_def MAX_RESULTS_def)
  show ?thesis
  proof (cases "medicines = []")
    case True
    with body got show ?thesis by (auto simp add: search_medicines_body_def)
  next
    case False
    with body got assms(2) obtain processed
      where p: "make_all (create_medicine_from_db pct) medicines = Inr processed"
      and r: "resp = \<lparr>exact_match = None, similar_formulations = map snd processed,
                       Uses = None, Side_Effects = None\<rparr>"
      by (auto simp add: search_medicines_body_def split: sum.splits)
    from make_all_length [OF p] len r show ?thesis by simp
  qed
qed

theorem browse_mode_has_no_exact_match_witness:
  "search_medicines exact_pct (table_store (replicate 16 twin)) (by_type ''anti   diabetic'')
       (Some high_to_low)
     = Reply_ok \<lparr>exact_match = None, similar_formulations = replicate 15 twin_medicine,
                 Uses = None, Side_Effects = None\<rparr>
   \<and> length (replicate 15 twin_medicine) \<le> 15"
proof -
  have b: "is_type_or_dosage_search (by_type ''anti   diabetic'')"
    by (simp add: is_type_or_dosage_search_def by_type_def truthy_def)
  have e: "search_medicines exact_pct (table_store (replicate 16 twin)) (by_type ''anti   diabetic'')
       (Some high_to_low)
     = Reply_ok \<lparr>exact_match = None, similar_formulations = replicate 15 twin_medicine,
                 Uses = None, Side_Effects = None\<rparr>"
    by code_simp
  from browse_mode_has_no_exact_match [OF honours_limit_table_store b e] e
  show ?thesis by simp
qed




end
